theory Spec2Isabelle
  imports Complex_Main
begin

section \<open>The media-posting server \<^verbatim>\<open>server.js\<close>\<close>

text \<open>
  The server keeps two pieces of persistent state: the document \<^verbatim>\<open>posts.json\<close>, a JSON array
  of post objects, and the directory \<^verbatim>\<open>uploads/\<close> of stored files. Every route handler reads
  the whole document, changes the array in memory and writes the whole document back. The model
  passes this state explicitly: a handler takes the state and the request and returns the
  response together with the state it leaves behind.

  Conventions of the model.
  \<^item> A \<^typ>\<open>string\<close> is the UTF-8 encoding of a JavaScript string. The functions of the model
    that look for ASCII characters (the pattern test, the extension, the digits of a number)
    read the bytes as the platform reads the characters. White space is the white space of
    JavaScript, each character by its encoding (U+00A0 is the two bytes C2 A0).
  \<^item> The document is kept as the value \<^verbatim>\<open>JSON.parse\<close> reads from it (\<^verbatim>\<open>JSON.stringify\<close> followed
    by \<^verbatim>\<open>JSON.parse\<close> gives back a value made of numbers, strings, null, arrays and objects).
  \<^item> The server runs in its own directory, so that \<^verbatim>\<open>uploads/\<close> of the upload middleware and
    \<^verbatim>\<open>path.join(__dirname, post.url)\<close> of the delete handler name the same directory. File
    paths are written relative to it.
  \<^item> The clock and the random number generator are inputs of a request (\<open>env\<close>).
  \<^item> Reading and writing the document and storing an accepted upload succeed. The one file
    operation that can fail in the model is \<^verbatim>\<open>fs.unlinkSync\<close>.
  \<^item> The body of a \<^verbatim>\<open>PUT\<close> request is a JSON object, and each field of a multipart body occurs
    at most once.
  \<^item> Identifiers are integers far below \<open>2^53\<close>, where JavaScript numbers are exact.
\<close>

subsection \<open>JavaScript values\<close>

datatype json =
    JNull
  | JBool bool
  | JNum real
  | JStr string
  | JArr "json list"
  | JObj "(string \<times> json) list"

text \<open>A property read from an object is \<open>None\<close> when it is \<^verbatim>\<open>undefined\<close>.\<close>

type_synonym jsval = "json option"

fun truthy :: "jsval \<Rightarrow> bool" where
  "truthy None = False"
| "truthy (Some JNull) = False"
| "truthy (Some (JBool b)) = b"
| "truthy (Some (JNum r)) = (r \<noteq> 0)"
| "truthy (Some (JStr s)) = (s \<noteq> [])"
| "truthy (Some (JArr xs)) = True"
| "truthy (Some (JObj kvs)) = True"

subsection \<open>String functions of the platform\<close>

definition upper_chars :: string where
  "upper_chars = ''ABCDEFGHIJKLMNOPQRSTUVWXYZ''"

definition lower_chars :: string where
  "lower_chars = ''abcdefghijklmnopqrstuvwxyz''"

definition lower_char :: "char \<Rightarrow> char" where
  "lower_char c = (case map_of (zip upper_chars lower_chars) c of Some l \<Rightarrow> l | None \<Rightarrow> c)"

definition startsWith :: "string \<Rightarrow> string \<Rightarrow> bool" where
  "startsWith s p = (take (length p) s = p)"

text \<open>
  \<^verbatim>\<open>s.toLowerCase()\<close>. The letters A to Z become a to z. Two more characters have a lower case
  with an ASCII letter in it: U+0130 becomes \<^verbatim>\<open>i\<close> and U+0307, and U+212A becomes \<^verbatim>\<open>k\<close>.
  Every other character has a lower case outside ASCII; the model leaves those characters as
  they are, since the server looks for ASCII words only in the result.
\<close>

fun toLowerCase :: "string \<Rightarrow> string" where
  "toLowerCase [] = []"
| "toLowerCase (c # cs) =
     (if startsWith (c # cs) [CHR 0xC4, CHR 0xB0]
      then [CHR ''i'', CHR 0xCC, CHR 0x87] @ toLowerCase (drop 1 cs)
      else if startsWith (c # cs) [CHR 0xE2, CHR 0x84, CHR 0xAA]
      then CHR ''k'' # toLowerCase (drop 2 cs)
      else lower_char c # toLowerCase cs)"

text \<open>
  The white space that \<^verbatim>\<open>trim\<close> and \<^verbatim>\<open>parseInt\<close> skip: the characters TAB, LF, VT, FF, CR
  and SPACE, then U+00A0, U+1680, U+2000 to U+200A, U+2028, U+2029, U+202F, U+205F, U+3000
  and U+FEFF, each in its UTF-8 encoding.
\<close>

definition white_space :: "string list" where
  "white_space =
     [[CHR 0x09], [CHR 0x0A], [CHR 0x0B], [CHR 0x0C], [CHR 0x0D], [CHR 0x20],
      [CHR 0xC2, CHR 0xA0],
      [CHR 0xE1, CHR 0x9A, CHR 0x80],
      [CHR 0xE2, CHR 0x80, CHR 0x80], [CHR 0xE2, CHR 0x80, CHR 0x81],
      [CHR 0xE2, CHR 0x80, CHR 0x82], [CHR 0xE2, CHR 0x80, CHR 0x83],
      [CHR 0xE2, CHR 0x80, CHR 0x84], [CHR 0xE2, CHR 0x80, CHR 0x85],
      [CHR 0xE2, CHR 0x80, CHR 0x86], [CHR 0xE2, CHR 0x80, CHR 0x87],
      [CHR 0xE2, CHR 0x80, CHR 0x88], [CHR 0xE2, CHR 0x80, CHR 0x89],
      [CHR 0xE2, CHR 0x80, CHR 0x8A],
      [CHR 0xE2, CHR 0x80, CHR 0xA8], [CHR 0xE2, CHR 0x80, CHR 0xA9],
      [CHR 0xE2, CHR 0x80, CHR 0xAF],
      [CHR 0xE2, CHR 0x81, CHR 0x9F],
      [CHR 0xE3, CHR 0x80, CHR 0x80],
      [CHR 0xEF, CHR 0xBB, CHR 0xBF]]"

text \<open>\<open>strip ws s\<close> removes from the front of \<open>s\<close> every occurrence of a text of \<open>ws\<close>, until
  \<open>s\<close> begins with none of them.\<close>

function strip :: "string list \<Rightarrow> string \<Rightarrow> string" where
  "strip ws s =
     (case List.find (\<lambda>w. w \<noteq> [] \<and> startsWith s w) ws of
        None \<Rightarrow> s
      | Some w \<Rightarrow> strip ws (drop (length w) s))"
  by pat_completeness auto
termination
proof (relation "measure (\<lambda>(ws, s). length s)")
  show "wf (measure (\<lambda>(ws, s). length s))" by simp
next
  fix ws :: "string list" and s w :: string
  assume "List.find (\<lambda>w. w \<noteq> [] \<and> startsWith s w) ws = Some w"
  then have "w \<noteq> []" "take (length w) s = w"
    by (auto simp: find_Some_iff startsWith_def)
  then have "s \<noteq> []" by auto
  with \<open>w \<noteq> []\<close> show "((ws, drop (length w) s), (ws, s)) \<in> measure (\<lambda>(ws, s). length s)"
    by simp
qed

declare strip.simps [simp del]

text \<open>\<^verbatim>\<open>s.trim()\<close>: the white space at the front and at the end is removed.\<close>

definition trim :: "string \<Rightarrow> string" where
  "trim s = rev (strip (map rev white_space) (rev (strip white_space s)))"

text \<open>\<^verbatim>\<open>s.includes(t)\<close>: \<open>t\<close> occurs in \<open>s\<close> at some position.\<close>

fun includes_str :: "string \<Rightarrow> string \<Rightarrow> bool" where
  "includes_str [] t = (t = [])"
| "includes_str (c # cs) t = (startsWith (c # cs) t \<or> includes_str cs t)"

text \<open>
  \<^verbatim>\<open>path.extname\<close> (POSIX): trailing slashes are dropped, the last path component is taken, and
  the extension runs from its last dot to its end. It is empty when the component has no dot,
  when its only dot is its first character, and when the component is \<^verbatim>\<open>..\<close>.
\<close>

definition is_slash :: "char \<Rightarrow> bool" where
  "is_slash c = (c = CHR ''/'')"

definition is_dot :: "char \<Rightarrow> bool" where
  "is_dot c = (c = CHR ''.'')"

definition last_component :: "string \<Rightarrow> string" where
  "last_component p =
     rev (takeWhile (\<lambda>c. \<not> is_slash c) (dropWhile is_slash (rev p)))"

definition extname :: "string \<Rightarrow> string" where
  "extname p =
     (let b = last_component p;
          after_dot = rev (takeWhile (\<lambda>c. \<not> is_dot c) (rev b));
          upto_dot = dropWhile (\<lambda>c. \<not> is_dot c) (rev b)
      in if upto_dot = [] then []
         else if length upto_dot = 1 then []
         else if b = ''..'' then []
         else CHR ''.'' # after_dot)"

text \<open>Decimal notation of a non-negative integer, as string concatenation produces it.\<close>

definition digit_char :: "nat \<Rightarrow> char" where
  "digit_char d = ''0123456789'' ! (d mod 10)"

fun decimal :: "nat \<Rightarrow> string" where
  "decimal n = (if n < 10 then [digit_char n] else decimal (n div 10) @ [digit_char (n mod 10)])"

declare decimal.simps [simp del]

text \<open>
  \<^verbatim>\<open>parseInt(s)\<close> without a radix: leading white space is skipped, a sign is read, a prefix
  \<^verbatim>\<open>0x\<close> or \<^verbatim>\<open>0X\<close> selects radix 16, and the longest run of digits of the radix is the value.
  With no digit the result is \<^verbatim>\<open>NaN\<close>, here \<open>None\<close>.
\<close>

definition digit_table :: "(char \<times> nat) list" where
  "digit_table =
     zip ''0123456789abcdef'' [0 ..< 16] @ zip ''ABCDEF'' [10 ..< 16]"

definition digit_val :: "char \<Rightarrow> nat option" where
  "digit_val c = map_of digit_table c"

definition is_digit :: "nat \<Rightarrow> char \<Rightarrow> bool" where
  "is_digit radix c = (case digit_val c of Some d \<Rightarrow> d < radix | None \<Rightarrow> False)"

definition digits_value :: "nat \<Rightarrow> string \<Rightarrow> nat" where
  "digits_value radix ds =
     foldl (\<lambda>acc c. acc * radix + (case digit_val c of Some d \<Rightarrow> d | None \<Rightarrow> 0)) 0 ds"

definition parseInt :: "string \<Rightarrow> int option" where
  "parseInt s =
     (let s1 = strip white_space s;
          (sign, s2) = (case s1 of
                          c # r \<Rightarrow> if c = CHR ''-'' then (- 1 :: int, r)
                                   else if c = CHR ''+'' then (1, r) else (1, s1)
                        | [] \<Rightarrow> (1, s1));
          (radix, s3) = (if take 2 s2 = ''0x'' \<or> take 2 s2 = ''0X''
                         then (16 :: nat, drop 2 s2) else (10, s2));
          ds = takeWhile (is_digit radix) s3
      in if ds = [] then None else Some (sign * int (digits_value radix ds)))"

text \<open>\<^verbatim>\<open>p.id === parseInt(...)\<close>: \<^verbatim>\<open>NaN\<close> is equal to nothing.\<close>

definition id_matches :: "int \<Rightarrow> int option \<Rightarrow> bool" where
  "id_matches i n = (n = Some i)"

text \<open>\<^verbatim>\<open>xs.findIndex(P)\<close>: the first index whose element satisfies \<open>P\<close>; \<open>None\<close> is \<open>-1\<close>.\<close>

fun findIndex :: "('a \<Rightarrow> bool) \<Rightarrow> 'a list \<Rightarrow> nat option" where
  "findIndex P [] = None"
| "findIndex P (x # xs) =
     (if P x then Some 0 else map_option Suc (findIndex P xs))"

text \<open>\<^verbatim>\<open>xs.splice(i, 1)\<close>.\<close>

definition splice1 :: "nat \<Rightarrow> 'a list \<Rightarrow> 'a list" where
  "splice1 i xs = take i xs @ drop (Suc i) xs"

subsection \<open>Posts and the server state\<close>

datatype media = Image | Video

record post =
  post_id :: int
  post_type :: media
  url :: string
  title :: json
  description :: json
  date :: json
  tags :: json
  externalLink :: json

text \<open>
  \<open>posts\<close> is the content of \<^verbatim>\<open>posts.json\<close>, \<open>files\<close> the paths of the files that exist, and
  \<open>unremovable\<close> the paths at which \<^verbatim>\<open>fs.unlinkSync\<close> fails although the file exists (a file
  the process may not remove).
\<close>

record server =
  posts :: "post list"
  files :: "string set"
  unremovable :: "string set"

definition readPosts :: "server \<Rightarrow> post list" where
  "readPosts st = posts st"

definition writePosts :: "post list \<Rightarrow> server \<Rightarrow> server" where
  "writePosts ps st = st\<lparr>posts := ps\<rparr>"

definition existsSync :: "string \<Rightarrow> server \<Rightarrow> bool" where
  "existsSync p st = (p \<in> files st)"

datatype fs_error = ENOENT | EPERM

definition unlinkSync :: "string \<Rightarrow> server \<Rightarrow> fs_error + server" where
  "unlinkSync p st =
     (if p \<notin> files st then Inl ENOENT
      else if p \<in> unremovable st then Inl EPERM
      else Inr (st\<lparr>files := files st - {p}\<rparr>))"

text \<open>
  \<^verbatim>\<open>path.join(__dirname, url)\<close> relative to the server's directory: the slashes that begin the
  url are absorbed by the join.
\<close>

definition filePath :: "string \<Rightarrow> string" where
  "filePath u = dropWhile is_slash u"

subsection \<open>Responses\<close>

datatype payload =
    PostList "post list"
  | OnePost post
  | Error string
  | Message string
  | Unhandled string

type_synonym response = "nat \<times> payload"

subsection \<open>The upload middleware\<close>

text \<open>A file part as the middleware hands it to the filter: \<open>mimetype\<close> is the declared type
  as the multipart parser delivers it.\<close>

record upload =
  originalname :: string
  mimetype :: string
  fileSize :: nat

record stored =
  filename :: string
  path :: string
  stored_mimetype :: string

record env =
  upload_now :: nat
  rnd :: nat
  now :: nat
  today :: string

text \<open>The pattern \<^verbatim>\<open>/jpeg|jpg|png|gif|webp|mp4|mov|avi|webm/\<close> has no anchors.\<close>

definition allowedTypes :: "string list" where
  "allowedTypes =
     [''jpeg'', ''jpg'', ''png'', ''gif'', ''webp'', ''mp4'', ''mov'', ''avi'', ''webm'']"

definition test :: "string list \<Rightarrow> string \<Rightarrow> bool" where
  "test alternatives s = list_ex (includes_str s) alternatives"

definition fileFilter :: "upload \<Rightarrow> bool" where
  "fileFilter file =
     (let extname_ok = test allowedTypes (toLowerCase (extname (originalname file)));
          mimetype_ok = test allowedTypes (mimetype file)
      in mimetype_ok \<and> extname_ok)"

definition storage_filename :: "env \<Rightarrow> upload \<Rightarrow> string" where
  "storage_filename e file =
     (let uniqueSuffix = decimal (upload_now e) @ ''-'' @ decimal (rnd e)
      in uniqueSuffix @ extname (originalname file))"

definition fileSize_limit :: nat where
  "fileSize_limit = 50 * 1024 * 1024"

text \<open>
  \<^verbatim>\<open>upload.single('file')\<close>: without a file part the request goes on with \<^verbatim>\<open>req.file\<close>
  undefined. A file part is passed to the filter first; a file the filter refuses, or one
  over the size limit, ends the request with an error and leaves nothing in the directory.
\<close>

definition upload_single :: "env \<Rightarrow> upload option \<Rightarrow> server \<Rightarrow> (string + stored option) \<times> server" where
  "upload_single e part st =
     (case part of
        None \<Rightarrow> (Inr None, st)
      | Some file \<Rightarrow>
          if \<not> fileFilter file then (Inl ''Solo immagini e video sono permessi!'', st)
          else if fileSize file > fileSize_limit then (Inl ''File too large'', st)
          else
            let name = storage_filename e file;
                p = ''uploads/'' @ name
            in (Inr (Some \<lparr>filename = name, path = p, stored_mimetype = mimetype file\<rparr>),
                st\<lparr>files := insert p (files st)\<rparr>))"

subsection \<open>Route handlers\<close>

text \<open>\<^verbatim>\<open>externalLink && externalLink.trim() ? externalLink.trim() : null\<close>; a truthy value that
  is not a string has no \<^verbatim>\<open>trim\<close>, and the call throws.\<close>

datatype exn = TypeError | SyntaxError | FsError fs_error

fun normalize_link :: "jsval \<Rightarrow> exn + json" where
  "normalize_link (Some (JStr s)) =
     (if s \<noteq> [] \<and> trim s \<noteq> [] then Inr (JStr (trim s)) else Inr JNull)"
| "normalize_link v = (if truthy v then Inl TypeError else Inr JNull)"

text \<open>\<^verbatim>\<open>GET /api/posts\<close>\<close>

definition get_posts :: "server \<Rightarrow> response \<times> server" where
  "get_posts st = ((200, PostList (readPosts st)), st)"

text \<open>\<^verbatim>\<open>GET /api/posts/:id\<close>\<close>

definition get_post :: "string \<Rightarrow> server \<Rightarrow> response \<times> server" where
  "get_post id_param st =
     (let ps = readPosts st in
      case List.find (\<lambda>p. id_matches (post_id p) (parseInt id_param)) ps of
        None \<Rightarrow> ((404, Error ''Post non trovato''), st)
      | Some p \<Rightarrow> ((200, OnePost p), st))"

text \<open>
  \<^verbatim>\<open>POST /api/posts\<close>. The fields of a multipart body are strings. \<open>JSON_parse\<close> is the
  platform's \<^verbatim>\<open>JSON.parse\<close>, \<open>None\<close> where it throws.
\<close>

record create_request =
  file_part :: "upload option"
  text_fields :: "string \<rightharpoonup> string"

definition field :: "create_request \<Rightarrow> string \<Rightarrow> jsval" where
  "field req k = map_option JStr (text_fields req k)"

definition newPost :: "env \<Rightarrow> stored \<Rightarrow> create_request \<Rightarrow> json \<Rightarrow> json \<Rightarrow> post" where
  "newPost e f req parsed_tags link =
     \<lparr>post_id = int (now e),
      post_type = (if startsWith (stored_mimetype f) ''image/'' then Image else Video),
      url = ''/uploads/'' @ filename f,
      title = (case field req ''title'' of Some t \<Rightarrow> t | None \<Rightarrow> JNull),
      description = (case field req ''description'' of Some d \<Rightarrow> d | None \<Rightarrow> JNull),
      date = (if truthy (field req ''date'')
              then (case field req ''date'' of Some d \<Rightarrow> d | None \<Rightarrow> JNull)
              else JStr (today e)),
      tags = parsed_tags,
      externalLink = link\<rparr>"

definition create_error :: payload where
  "create_error = Error ''Errore nel creare il post''"

definition post_posts ::
  "(string \<Rightarrow> json option) \<Rightarrow> env \<Rightarrow> create_request \<Rightarrow> server \<Rightarrow> response \<times> server" where
  "post_posts JSON_parse e req st =
     (case upload_single e (file_part req) st of
        (Inl msg, st1) \<Rightarrow> ((500, Unhandled msg), st1)
      | (Inr None, st1) \<Rightarrow> ((400, Error ''File non caricato''), st1)
      | (Inr (Some f), st1) \<Rightarrow>
          if \<not> truthy (field req ''title'') \<or> \<not> truthy (field req ''description'') then
            (case unlinkSync (path f) st1 of
               Inl err \<Rightarrow> ((500, create_error), st1)
             | Inr st2 \<Rightarrow> ((400, Error ''Titolo e descrizione sono obbligatori''), st2))
          else
            let ps = readPosts st1 in
            case (case text_fields req ''tags'' of
                    None \<Rightarrow> Some (JArr [])
                  | Some t \<Rightarrow> if t \<noteq> [] then JSON_parse t else Some (JArr [])) of
              None \<Rightarrow> ((500, create_error), st1)
            | Some parsed_tags \<Rightarrow>
                (case normalize_link (field req ''externalLink'') of
                   Inl err \<Rightarrow> ((500, create_error), st1)
                 | Inr link \<Rightarrow>
                     let p = newPost e f req parsed_tags link
                     in ((201, OnePost p), writePosts (p # ps) st1)))"

text \<open>\<^verbatim>\<open>DELETE /api/posts/:id\<close>\<close>

definition delete_error :: payload where
  "delete_error = Error ''Errore nell'eliminare il post''"

definition delete_post :: "string \<Rightarrow> server \<Rightarrow> response \<times> server" where
  "delete_post id_param st =
     (let ps = readPosts st in
      case findIndex (\<lambda>p. id_matches (post_id p) (parseInt id_param)) ps of
        None \<Rightarrow> ((404, Error ''Post non trovato''), st)
      | Some postIndex \<Rightarrow>
          let p = ps ! postIndex;
              fp = filePath (url p);
              removed = (if existsSync fp st then unlinkSync fp st else Inr st)
          in case removed of
               Inl err \<Rightarrow> ((500, delete_error), st)
             | Inr st1 \<Rightarrow>
                 ((200, Message ''Post eliminato con successo''),
                  writePosts (splice1 postIndex ps) st1))"

text \<open>\<^verbatim>\<open>PUT /api/posts/:id\<close>. The body is a JSON object; its properties are any JSON values.\<close>

type_synonym body = "string \<rightharpoonup> json"

definition put_error :: payload where
  "put_error = Error ''Errore nell'aggiornare il post''"

definition assign_fields :: "body \<Rightarrow> post \<Rightarrow> post" where
  "assign_fields b p =
     (let p1 = (case b ''title'' of Some v \<Rightarrow> if truthy (Some v) then p\<lparr>title := v\<rparr> else p
                | None \<Rightarrow> p);
          p2 = (case b ''description'' of
                  Some v \<Rightarrow> if truthy (Some v) then p1\<lparr>description := v\<rparr> else p1
                | None \<Rightarrow> p1);
          p3 = (case b ''date'' of Some v \<Rightarrow> if truthy (Some v) then p2\<lparr>date := v\<rparr> else p2
                | None \<Rightarrow> p2);
          p4 = (case b ''tags'' of Some v \<Rightarrow> if truthy (Some v) then p3\<lparr>tags := v\<rparr> else p3
                | None \<Rightarrow> p3)
      in p4)"

definition put_post :: "string \<Rightarrow> body \<Rightarrow> server \<Rightarrow> response \<times> server" where
  "put_post id_param b st =
     (let ps = readPosts st in
      case findIndex (\<lambda>p. id_matches (post_id p) (parseInt id_param)) ps of
        None \<Rightarrow> ((404, Error ''Post non trovato''), st)
      | Some postIndex \<Rightarrow>
          let p4 = assign_fields b (ps ! postIndex) in
          case (case b ''externalLink'' of
                  None \<Rightarrow> Inr p4
                | Some v \<Rightarrow> map_sum (\<lambda>err. err) (\<lambda>link. p4\<lparr>externalLink := link\<rparr>)
                              (normalize_link (Some v))) of
            Inl err \<Rightarrow> ((500, put_error), st)
          | Inr p5 \<Rightarrow>
              let ps' = ps[postIndex := p5]
              in ((200, OnePost (ps' ! postIndex)), writePosts ps' st))"

subsection \<open>Sequences of requests\<close>

datatype request =
    GetAll
  | GetOne string
  | Create env create_request
  | Update string body
  | Delete string

fun handle :: "(string \<Rightarrow> json option) \<Rightarrow> request \<Rightarrow> server \<Rightarrow> response \<times> server" where
  "handle JSON_parse GetAll st = get_posts st"
| "handle JSON_parse (GetOne i) st = get_post i st"
| "handle JSON_parse (Create e req) st = post_posts JSON_parse e req st"
| "handle JSON_parse (Update i b) st = put_post i b st"
| "handle JSON_parse (Delete i) st = delete_post i st"

fun run :: "(string \<Rightarrow> json option) \<Rightarrow> request list \<Rightarrow> server \<Rightarrow> server" where
  "run JSON_parse [] st = st"
| "run JSON_parse (r # rs) st = run JSON_parse rs (snd (handle JSON_parse r st))"

text \<open>The clock values that the create requests of a sequence read for their ids.\<close>

fun create_times :: "request list \<Rightarrow> nat list" where
  "create_times [] = []"
| "create_times (Create e req # rs) = now e # create_times rs"
| "create_times (r # rs) = create_times rs"

subsection \<open>The spec's notion of a numeric id\<close>

text \<open>
  The interface description speaks of numeric and non-numeric values of the \<^verbatim>\<open>:id\<close> path
  parameter. In its words, a numeric value is a non-empty run of decimal digits.
\<close>

definition numeric_id :: "string \<Rightarrow> bool" where
  "numeric_id s = (s \<noteq> [] \<and> list_all (\<lambda>c. c \<in> set ''0123456789'') s)"

subsection \<open>Concrete requests and states\<close>

text \<open>
  The values of \<^verbatim>\<open>JSON.parse\<close> at the two well-formed texts the examples send as tags. The
  only other text the examples pass to it is \<^verbatim>\<open>{bad\<close>, which is not JSON.
\<close>

definition JSON_parse_sample :: "string \<Rightarrow> json option" where
  "JSON_parse_sample = [''[]'' \<mapsto> JArr [], ''[1,2]'' \<mapsto> JArr [JNum 1, JNum 2]]"

definition empty_server :: server where
  "empty_server = \<lparr>posts = [], files = {}, unremovable = {}\<rparr>"

definition jpg_upload :: upload where
  "jpg_upload = \<lparr>originalname = ''photo.JPG'', mimetype = ''image/jpeg'', fileSize = 2048\<rparr>"

definition txt_upload :: upload where
  "txt_upload = \<lparr>originalname = ''notes.txt'', mimetype = ''image/png'', fileSize = 2048\<rparr>"

definition env_a :: env where
  "env_a = \<lparr>upload_now = 1700000000000, rnd = 123456789, now = 1700000000002,
            today = ''2023-11-14''\<rparr>"

definition env_b :: env where
  "env_b = \<lparr>upload_now = 1700000000500, rnd = 42, now = 1700000000501,
            today = ''2023-11-14''\<rparr>"

text \<open>A second request served in the millisecond of \<open>env_a\<close>.\<close>

definition env_c :: env where
  "env_c = \<lparr>upload_now = 1700000000001, rnd = 987654321, now = 1700000000002,
            today = ''2023-11-14''\<rparr>"

text \<open>A file that is neither an image nor a video by its name or by its declared type.\<close>

definition jpgx_upload :: upload where
  "jpgx_upload = \<lparr>originalname = ''photo.jpgx'', mimetype = ''text/x-png'', fileSize = 2048\<rparr>"

definition jpgx_request :: create_request where
  "jpgx_request =
     \<lparr>file_part = Some jpgx_upload,
      text_fields = [''title'' \<mapsto> ''Trip'', ''description'' \<mapsto> ''Summer'']\<rparr>"

definition post_x :: post where
  "post_x = \<lparr>post_id = 1700000000002, post_type = Video,
             url = ''/uploads/1700000000000-123456789.jpgx'',
             title = JStr ''Trip'', description = JStr ''Summer'', date = JStr ''2023-11-14'',
             tags = JArr [], externalLink = JNull\<rparr>"

definition server_x :: server where
  "server_x = \<lparr>posts = [post_x], files = {''uploads/1700000000000-123456789.jpgx''},
               unremovable = {}\<rparr>"

definition txt_request :: create_request where
  "txt_request = \<lparr>file_part = Some txt_upload, text_fields = Map.empty\<rparr>"

definition trip_request :: create_request where
  "trip_request =
     \<lparr>file_part = Some jpg_upload,
      text_fields = [''title'' \<mapsto> ''Trip'', ''description'' \<mapsto> ''Summer'',
                     ''tags'' \<mapsto> ''[1,2]'']\<rparr>"

definition untitled_request :: create_request where
  "untitled_request =
     \<lparr>file_part = Some jpg_upload,
      text_fields = [''title'' \<mapsto> '''', ''description'' \<mapsto> ''Summer'']\<rparr>"

definition bad_tags_request :: create_request where
  "bad_tags_request =
     \<lparr>file_part = Some jpg_upload,
      text_fields = [''title'' \<mapsto> ''Trip'', ''description'' \<mapsto> ''Summer'',
                     ''tags'' \<mapsto> ''{bad'']\<rparr>"

definition post_a :: post where
  "post_a = \<lparr>post_id = 1700000000002, post_type = Image,
             url = ''/uploads/1700000000000-123456789.JPG'',
             title = JStr ''Trip'', description = JStr ''Summer'', date = JStr ''2023-11-14'',
             tags = JArr [JNum 1, JNum 2], externalLink = JNull\<rparr>"

definition post_b :: post where
  "post_b = \<lparr>post_id = 1700000000501, post_type = Image,
             url = ''/uploads/1700000000500-42.JPG'',
             title = JStr ''Trip'', description = JStr ''Summer'', date = JStr ''2023-11-14'',
             tags = JArr [JNum 1, JNum 2], externalLink = JNull\<rparr>"

definition post_c :: post where
  "post_c = \<lparr>post_id = 1700000000002, post_type = Image,
             url = ''/uploads/1700000000001-987654321.JPG'',
             title = JStr ''Trip'', description = JStr ''Summer'', date = JStr ''2023-11-14'',
             tags = JArr [JNum 1, JNum 2], externalLink = JNull\<rparr>"

definition linked_post :: post where
  "linked_post = \<lparr>post_id = 1700000000002, post_type = Image,
             url = ''/uploads/1700000000000-123456789.JPG'',
             title = JStr ''Trip'', description = JStr ''Summer'', date = JStr ''2023-11-14'',
             tags = JArr [JStr ''sea''], externalLink = JStr ''https://example.org''\<rparr>"

definition server_a :: server where
  "server_a = \<lparr>posts = [post_a], files = {''uploads/1700000000000-123456789.JPG''},
               unremovable = {}\<rparr>"

definition server_b :: server where
  "server_b = \<lparr>posts = [post_b, post_a],
     files = {''uploads/1700000000500-42.JPG'', ''uploads/1700000000000-123456789.JPG''},
     unremovable = {}\<rparr>"

definition server_c :: server where
  "server_c = \<lparr>posts = [post_c, post_a],
     files = {''uploads/1700000000001-987654321.JPG'', ''uploads/1700000000000-123456789.JPG''},
     unremovable = {}\<rparr>"

text \<open>The state of \<open>server_a\<close> with a file that cannot be removed, and with the file gone.\<close>

definition locked_server :: server where
  "locked_server = \<lparr>posts = [post_a], files = {''uploads/1700000000000-123456789.JPG''},
                     unremovable = {''uploads/1700000000000-123456789.JPG''}\<rparr>"

definition fileless_server :: server where
  "fileless_server = \<lparr>posts = [post_a], files = {}, unremovable = {}\<rparr>"

text \<open>A stored file that no post refers to.\<close>

definition orphaned_upload_server :: server where
  "orphaned_upload_server =
     \<lparr>posts = [], files = {''uploads/1700000000000-123456789.JPG''}, unremovable = {}\<rparr>"

definition linked_server :: server where
  "linked_server = \<lparr>posts = [post_b, linked_post],
     files = {''uploads/1700000000500-42.JPG'', ''uploads/1700000000000-123456789.JPG''},
     unremovable = {}\<rparr>"

definition cleared_server :: server where
  "cleared_server = \<lparr>posts = [post_b, linked_post\<lparr>externalLink := JNull\<rparr>],
     files = {''uploads/1700000000500-42.JPG'', ''uploads/1700000000000-123456789.JPG''},
     unremovable = {}\<rparr>"

definition clearing_body :: body where
  "clearing_body =
     [''title'' \<mapsto> JStr '''', ''tags'' \<mapsto> JNull, ''externalLink'' \<mapsto> JStr ''  '']"




section \<open>Auxiliary facts\<close>

subsection \<open>White space\<close>

lemma strip_other:
  assumes "32 < (of_char c :: nat)" and "(of_char c :: nat) < 194"
  shows "strip white_space (c # r) = c # r"
proof -
  have "c \<notin> {CHR 0x09, CHR 0x0A, CHR 0x0B, CHR 0x0C, CHR 0x0D, CHR 0x20, CHR 0xC2, CHR 0xE1,
              CHR 0xE2, CHR 0xE3, CHR 0xEF}"
    using assms by auto
  then show ?thesis
    by (simp add: strip.simps white_space_def startsWith_def)
qed





lemma strip_Nil: "strip ws [] = []"
proof -
  have "List.find (\<lambda>w. w \<noteq> [] \<and> startsWith [] w) ws = None"
    by (auto simp: find_None_iff startsWith_def)
  then show ?thesis by (simp add: strip.simps)
qed

text \<open>A no-break space (U+00A0) is white space.\<close>

lemma trim_nbsp: "trim [CHR 0xC2, CHR 0xA0] = [] \<and> trim ([CHR 0xC2, CHR 0xA0] @ ''a b '') = ''a b''"
  by code_simp

lemma trim_Nil: "trim [] = []"
  by (simp add: trim_def strip_Nil)

subsection \<open>Decimal notation and \<^verbatim>\<open>parseInt\<close>\<close>

lemma lt10:
  "(d::nat) < 10 \<Longrightarrow>
   d = 0 \<or> d = 1 \<or> d = 2 \<or> d = 3 \<or> d = 4 \<or> d = 5 \<or> d = 6 \<or> d = 7 \<or> d = 8 \<or> d = 9"
  by presburger

lemma digit_val_digit_char: "d < 10 \<Longrightarrow> digit_val (digit_char d) = Some d"
  by (drule lt10) (elim disjE; simp add: digit_char_def digit_val_def digit_table_def upt_rec)

lemma digit_char_decimal_digit: "d < 10 \<Longrightarrow> is_digit 10 (digit_char d)"
  by (simp add: is_digit_def digit_val_digit_char)

lemma digit_char_code: "d < 10 \<Longrightarrow> (of_char (digit_char d) :: nat) = 48 + d"
  by (drule lt10) (elim disjE; simp add: digit_char_def)

lemma digit_char_plain:
  assumes "d < 10"
  shows "strip white_space (digit_char d # r) = digit_char d # r"
        "digit_char d \<noteq> CHR ''-''" "digit_char d \<noteq> CHR ''+''"
        "digit_char d \<noteq> CHR ''x''" "digit_char d \<noteq> CHR ''X''"
proof -
  show "strip white_space (digit_char d # r) = digit_char d # r"
    using assms by (intro strip_other) (simp_all add: digit_char_code)
  show "digit_char d \<noteq> CHR ''-''" "digit_char d \<noteq> CHR ''+''"
        "digit_char d \<noteq> CHR ''x''" "digit_char d \<noteq> CHR ''X''"
    using lt10 [OF assms] by (elim disjE; simp add: digit_char_def)+
qed

lemma digit_char_zero: "d < 10 \<Longrightarrow> digit_char d = CHR ''0'' \<longleftrightarrow> d = 0"
  by (drule lt10) (elim disjE; simp add: digit_char_def)

lemma letter_code:
  assumes "c \<in> set (upper_chars @ lower_chars)"
  shows "65 \<le> (of_char c :: nat) \<and> (of_char c :: nat) \<le> 122"
proof -
  have "list_all (\<lambda>c. 65 \<le> (of_char c :: nat) \<and> (of_char c :: nat) \<le> 122) (upper_chars @ lower_chars)"
    by (simp add: upper_chars_def lower_chars_def)
  with assms show ?thesis by (simp add: list_all_iff)
qed

lemma decimal_digits:
  "\<exists>ds. ds \<noteq> [] \<and> (\<forall>d \<in> set ds. d < 10) \<and> decimal n = map digit_char ds"
proof (induction n rule: decimal.induct)
  case (1 n)
  show ?case
  proof (cases "n < 10")
    case True
    then have "decimal n = map digit_char [n]" by (simp add: decimal.simps)
    with True show ?thesis by (intro exI [of _ "[n]"]) simp
  next
    case False
    with 1 obtain ds
      where ds: "ds \<noteq> []" "\<forall>d \<in> set ds. d < 10" "decimal (n div 10) = map digit_char ds"
      by auto
    from False ds have "decimal n = map digit_char (ds @ [n mod 10])"
      by (subst decimal.simps) simp
    with ds show ?thesis by (intro exI [of _ "ds @ [n mod 10]"]) auto
  qed
qed

lemma digits_value_snoc:
  "digits_value r (ds @ [c]) =
     digits_value r ds * r + (case digit_val c of Some d \<Rightarrow> d | None \<Rightarrow> 0)"
  by (simp add: digits_value_def)

lemma digits_value_decimal: "digits_value 10 (decimal n) = n"
proof (induction n rule: decimal.induct)
  case (1 n)
  show ?case
  proof (cases "n < 10")
    case True
    then show ?thesis by (simp add: decimal.simps digits_value_def digit_val_digit_char)
  next
    case False
    with 1 have "digits_value 10 (decimal (n div 10)) = n div 10" by simp
    with False show ?thesis
      by (subst decimal.simps) (simp add: digits_value_snoc digit_val_digit_char)
  qed
qed

text \<open>The decimal notation of a number, followed by anything that does not go on as a
  number, is read back as the number.\<close>

lemma parseInt_decimal_then:
  assumes rest: "takeWhile (is_digit 10) rest = []"
    and zero: "n = 0 \<longrightarrow> take 1 rest \<noteq> ''x'' \<and> take 1 rest \<noteq> ''X''"
  shows "parseInt (decimal n @ rest) = Some (int n)"
proof -
  define s where "s = decimal n @ rest"
  obtain ds where ds: "ds \<noteq> []" "\<forall>d \<in> set ds. d < 10" "decimal n = map digit_char ds"
    using decimal_digits by blast
  then obtain d ds' where cons: "ds = d # ds'" by (cases ds) auto
  with ds have d: "d < 10" by simp
  have shape: "s = digit_char d # (map digit_char ds' @ rest)"
    using ds cons by (simp add: s_def)
  have "x \<in> set (decimal n) \<Longrightarrow> is_digit 10 x" for x
    using ds by (auto simp: digit_char_decimal_digit)
  then have "takeWhile (is_digit 10) (decimal n @ rest) = decimal n @ takeWhile (is_digit 10) rest"
    by (rule takeWhile_append2)
  then have all: "takeWhile (is_digit 10) s = decimal n"
    by (simp only: rest s_def append_Nil2)
  have nospace: "strip white_space s = s"
    unfolding shape by (rule digit_char_plain(1) [OF d])
  have second: "take 2 s \<noteq> [CHR ''0'', c]" if c: "c = CHR ''x'' \<or> c = CHR ''X''" for c
  proof (cases "n < 10")
    case True
    then have one: "decimal n = [digit_char n]" by (simp add: decimal.simps)
    show ?thesis
    proof (cases "n = 0")
      case True
      with zero c one show ?thesis
        by (cases rest) (auto simp: s_def)
    next
      case False
      with \<open>n < 10\<close> have "digit_char n \<noteq> CHR ''0''" by (simp add: digit_char_zero)
      with one show ?thesis by (simp add: s_def)
    qed
  next
    case False
    obtain es where es: "es \<noteq> []" "decimal (n div 10) = map digit_char es"
      using decimal_digits by blast
    from False es have "decimal n = map digit_char (es @ [n mod 10])"
      by (subst decimal.simps) simp
    with ds(3) have "map digit_char ds = map digit_char (es @ [n mod 10])" by simp
    then have "length ds = length (es @ [n mod 10])" by (rule map_eq_imp_length_eq)
    with es(1) cons obtain d2 ds2 where two: "ds' = d2 # ds2"
      by (cases ds'; cases es) auto
    with ds cons have "d2 < 10" by simp
    from digit_char_plain(4,5) [OF this] c two show ?thesis
      by (auto simp: shape)
  qed
  then have nohex: "take 2 s \<noteq> ''0x''" "take 2 s \<noteq> ''0X''"
    by simp_all
  have nonempty: "decimal n \<noteq> []" using ds by simp
  have signcase: "(case s of
                     c # r \<Rightarrow> if c = CHR ''-'' then (- 1 :: int, r)
                              else if c = CHR ''+'' then (1, r) else (1, s)
                   | [] \<Rightarrow> (1, s)) = (1, s)"
    using digit_char_plain(2,3) [OF d] by (subst (1) shape) simp
  show ?thesis
    unfolding parseInt_def Let_def s_def [symmetric] nospace signcase
    using nohex by (simp add: all nonempty digits_value_decimal)
qed

lemma parseInt_decimal: "parseInt (decimal n) = Some (int n)"
  using parseInt_decimal_then [of "[]" n] by simp

lemma letter_not_digit:
  assumes "c \<in> set (upper_chars @ lower_chars)"
  shows "\<not> is_digit 10 c"
proof -
  have "list_all (\<lambda>c. \<not> is_digit 10 c) (upper_chars @ lower_chars)"
    by (simp add: upper_chars_def lower_chars_def is_digit_def digit_val_def digit_table_def
          upt_rec)
  with assms show ?thesis by (simp add: list_all_iff)
qed

text \<open>A text that begins with a letter holds no number.\<close>

lemma parseInt_letter:
  assumes "c \<in> set (upper_chars @ lower_chars)"
  shows "parseInt (c # r) = None"
proof -
  from letter_code [OF assms] have code: "65 \<le> (of_char c :: nat)" "(of_char c :: nat) \<le> 122"
    by simp_all
  then have nospace: "strip white_space (c # r) = c # r"
    by (intro strip_other) simp_all
  from code have plain: "c \<noteq> CHR ''-''" "c \<noteq> CHR ''+''" "c \<noteq> CHR ''0''" by auto
  have nodigit: "takeWhile (is_digit 10) (c # r) = []"
    by (simp add: letter_not_digit [OF assms])
  show ?thesis
    unfolding parseInt_def Let_def nospace
    using plain by (simp add: letter_not_digit [OF assms])
qed

lemma parseInt_abc: "parseInt ''abc'' = None"
  by (rule parseInt_letter) (simp add: upper_chars_def lower_chars_def)

lemma decimal_a: "decimal 1700000000002 = ''1700000000002''"
  by (simp add: decimal.simps digit_char_def)

lemma parseInt_a: "parseInt ''1700000000002'' = Some 1700000000002"
  using parseInt_decimal [of 1700000000002] by (simp add: decimal_a)

lemma parseInt_prefix: "parseInt ''1700000000002abc'' = Some 1700000000002"
proof -
  have "takeWhile (is_digit 10) ''abc'' = []"
    by (simp add: is_digit_def digit_val_def digit_table_def upt_rec)
  from parseInt_decimal_then [OF this, of 1700000000002] show ?thesis
    by (simp add: decimal_a)
qed

text \<open>A no-break space (U+00A0) before the digits is skipped.\<close>

lemma parseInt_nbsp: "parseInt ([CHR 0xC2, CHR 0xA0] @ ''12'') = Some 12"
  by code_simp

subsection \<open>Array functions\<close>

lemma findIndex_None: "findIndex P xs = None \<longleftrightarrow> (\<forall>x \<in> set xs. \<not> P x)"
  by (induction xs) auto

lemma findIndex_Some:
  "findIndex P xs = Some i \<Longrightarrow> i < length xs \<and> P (xs ! i) \<and> (\<forall>j < i. \<not> P (xs ! j))"
proof (induction xs arbitrary: i)
  case Nil
  then show ?case by simp
next
  case (Cons x xs)
  show ?case
  proof (cases "P x")
    case True
    with Cons.prems show ?thesis by simp
  next
    case False
    with Cons.prems obtain k where k: "findIndex P xs = Some k" "i = Suc k" by auto
    from Cons.IH [OF k(1)] False k(2) show ?thesis
      by (auto simp: less_Suc_eq_0_disj)
  qed
qed

lemma set_splice1: "set (splice1 k xs) \<subseteq> set xs"
  by (auto simp: splice1_def dest: in_set_takeD in_set_dropD)

lemma distinct_splice1: "distinct xs \<Longrightarrow> distinct (splice1 k xs)"
proof (cases "k < length xs")
  case True
  assume "distinct xs"
  then have "distinct (take k xs @ xs ! k # drop (Suc k) xs)"
    using id_take_nth_drop [OF True] by simp
  then show ?thesis by (simp add: splice1_def)
next
  case False
  assume "distinct xs"
  with False show ?thesis by (simp add: splice1_def)
qed

lemma map_splice1: "map f (splice1 k xs) = splice1 k (map f xs)"
  by (simp add: splice1_def take_map drop_map)

subsection \<open>Outcomes of the handlers\<close>

text \<open>A create request either prepends one post, whose id is the clock value, with status
  201, or leaves the document as it is with another status.\<close>

lemma post_posts_outcome:
  assumes "post_posts JSON_parse e req st = ((code, pl), st')"
  shows "(code = 201 \<and>
            (\<exists>p. pl = OnePost p \<and> post_id p = int (now e) \<and> posts st' = p # posts st))
         \<or> (code \<noteq> 201 \<and> posts st' = posts st)"
  using assms
  by (auto simp: post_posts_def upload_single_def unlinkSync_def writePosts_def readPosts_def
        newPost_def Let_def
      split: if_splits option.splits sum.splits prod.splits)

text \<open>With a missing or empty title or description the stored file is removed again and
  the answer is 400.\<close>

lemma missing_title_or_description_rejected:
  assumes "upload_single e (file_part req) st = (Inr (Some f), st1)"
    and "\<not> truthy (field req ''title'') \<or> \<not> truthy (field req ''description'')"
    and "path f \<notin> unremovable st"
  shows "post_posts JSON_parse e req st =
           ((400, Error ''Titolo e descrizione sono obbligatori''),
            st1\<lparr>files := files st1 - {path f}\<rparr>) \<and>
         posts st1 = posts st \<and> path f \<in> files st1"
proof -
  from assms(1) have st1: "path f \<in> files st1" "unremovable st1 = unremovable st"
    "posts st1 = posts st"
    by (auto simp: upload_single_def Let_def split: option.splits if_splits)
  with assms show ?thesis
    by (auto simp: post_posts_def unlinkSync_def)
qed

lemma delete_post_posts:
  "posts (snd (delete_post i st)) = posts st \<or>
   (\<exists>k. posts (snd (delete_post i st)) = splice1 k (posts st))"
  by (auto simp: delete_post_def readPosts_def writePosts_def existsSync_def unlinkSync_def
        Let_def split: option.splits)

lemma assign_fields_frame [simp]:
  "post_id (assign_fields b p) = post_id p"
  "post_type (assign_fields b p) = post_type p"
  "url (assign_fields b p) = url p"
  "externalLink (assign_fields b p) = externalLink p"
  by (simp_all add: assign_fields_def Let_def split: option.splits)

lemma assign_fields_link:
  "(assign_fields b p)\<lparr>externalLink := externalLink p\<rparr> = assign_fields b p"
proof -
  have "(assign_fields b p)\<lparr>externalLink := externalLink (assign_fields b p)\<rparr>
          = assign_fields b p"
    by simp
  then show ?thesis by (simp only: assign_fields_frame)
qed







text \<open>An update either fails and leaves the state as it is, or replaces the first post of
  the given id by its updated version.\<close>

lemma put_post_cases:
  assumes "put_post i b st = (resp, st')"
  shows "(st' = st \<and> fst resp \<noteq> 200) \<or>
         (\<exists>k q. findIndex (\<lambda>p. id_matches (post_id p) (parseInt i)) (posts st) = Some k \<and>
            k < length (posts st) \<and> resp = (200, OnePost q) \<and>
            st' = st\<lparr>posts := (posts st)[k := q]\<rparr> \<and>
            (\<exists>l. q = (assign_fields b (posts st ! k))\<lparr>externalLink := l\<rparr> \<and>
               (case b ''externalLink'' of
                  None \<Rightarrow> l = externalLink (posts st ! k)
                | Some v \<Rightarrow> normalize_link (Some v) = Inr l)))"
proof (cases "findIndex (\<lambda>p. id_matches (post_id p) (parseInt i)) (posts st)")
  case None
  with assms show ?thesis by (auto simp: put_post_def readPosts_def)
next
  case (Some k)
  then have k: "k < length (posts st)" by (simp add: findIndex_Some)
  show ?thesis
  proof (cases "b ''externalLink''")
    case None
    with assms Some k show ?thesis
      by (auto simp: put_post_def readPosts_def writePosts_def Let_def assign_fields_link)
  next
    case (Some v)
    note v = this
    show ?thesis
    proof (cases "normalize_link (Some v)")
      case (Inl err)
      with assms v \<open>findIndex _ _ = Some k\<close> show ?thesis
        by (auto simp: put_post_def readPosts_def Let_def)
    next
      case (Inr l)
      with assms v k \<open>findIndex _ _ = Some k\<close> show ?thesis
        by (auto simp: put_post_def readPosts_def writePosts_def Let_def)
    qed
  qed
qed

lemma put_post_ids: "map post_id (posts (snd (put_post i b st))) = map post_id (posts st)"
  using put_post_cases [of i b st "fst (put_post i b st)" "snd (put_post i b st)"]
  by (auto simp: map_update list_update_same_conv)



subsection \<open>Ids along a sequence of requests\<close>

lemma handle_ids:
  assumes "distinct (map post_id (posts st))"
  shows "(case r of
            Create e req \<Rightarrow>
              posts (snd (handle JSON_parse r st)) = posts st \<or>
              (\<exists>p. post_id p = int (now e) \<and>
                   posts (snd (handle JSON_parse r st)) = p # posts st)
          | _ \<Rightarrow>
              distinct (map post_id (posts (snd (handle JSON_parse r st)))) \<and>
              set (map post_id (posts (snd (handle JSON_parse r st))))
                \<subseteq> set (map post_id (posts st)))"
proof (cases r)
  case GetAll
  with assms show ?thesis by (simp add: get_posts_def)
next
  case (GetOne i)
  with assms show ?thesis by (simp add: get_post_def Let_def split: option.splits)
next
  case (Create e req)
  obtain code pl st' where run: "post_posts JSON_parse e req st = ((code, pl), st')"
    by (metis surj_pair)
  from post_posts_outcome [OF run] Create run show ?thesis by auto
next
  case (Update i b)
  with assms show ?thesis by (simp add: put_post_ids)
next
  case (Delete i)
  from delete_post_posts [of i st] show ?thesis
  proof
    assume "posts (snd (delete_post i st)) = posts st"
    with assms Delete show ?thesis by simp
  next
    assume "\<exists>k. posts (snd (delete_post i st)) = splice1 k (posts st)"
    then obtain k where k: "posts (snd (delete_post i st)) = splice1 k (posts st)" ..
    have "distinct (splice1 k (map post_id (posts st)))"
      using assms by (rule distinct_splice1)
    moreover have "set (splice1 k (map post_id (posts st))) \<subseteq> set (map post_id (posts st))"
      by (rule set_splice1)
    ultimately show ?thesis using Delete k by (simp add: map_splice1)
  qed
qed

text \<open>
  The invariant of a run: the ids stay pairwise distinct as long as the clock values of the
  create requests are pairwise distinct and differ from the ids already stored.
\<close>

lemma run_ids:
  assumes "distinct (map post_id (posts st))"
    and "distinct (create_times rs)"
    and "int ` set (create_times rs) \<inter> set (map post_id (posts st)) = {}"
  shows "distinct (map post_id (posts (run JSON_parse rs st))) \<and>
         set (map post_id (posts (run JSON_parse rs st)))
           \<subseteq> set (map post_id (posts st)) \<union> int ` set (create_times rs)"
  using assms
proof (induction rs arbitrary: st)
  case Nil
  then show ?case by simp
next
  case (Cons r rs)
  define st1 where "st1 = snd (handle JSON_parse r st)"
  have run: "run JSON_parse (r # rs) st = run JSON_parse rs st1"
    by (simp add: st1_def)
  note step = handle_ids [OF Cons.prems(1), where r = r and JSON_parse = JSON_parse,
      folded st1_def]
  have other: ?case
    if nc: "create_times (r # rs) = create_times rs"
      and d1: "distinct (map post_id (posts st1))"
      and sub: "set (map post_id (posts st1)) \<subseteq> set (map post_id (posts st))"
  proof -
    from Cons.prems(2) nc have drs: "distinct (create_times rs)" by simp
    from Cons.prems(3) [unfolded nc] sub
    have disj: "int ` set (create_times rs) \<inter> set (map post_id (posts st1)) = {}" by blast
    from Cons.IH [OF d1 drs disj] sub show ?thesis unfolding run nc by blast
  qed
  show ?case
  proof (cases r)
    case (Create e req)
    then have times: "create_times (r # rs) = now e # create_times rs" by simp
    with Cons.prems have fresh: "now e \<notin> set (create_times rs)"
      and drs: "distinct (create_times rs)"
      and new: "int (now e) \<notin> set (map post_id (posts st))"
      and disj: "int ` set (create_times rs) \<inter> set (map post_id (posts st)) = {}"
      by auto
    from step Create
    consider "posts st1 = posts st"
      | p where "post_id p = int (now e)" "posts st1 = p # posts st"
      by auto
    then show ?thesis
    proof cases
      case 1
      with Cons.IH [of st1] Cons.prems(1) drs disj
      show ?thesis unfolding run times by auto
    next
      case 2
      from 2 new Cons.prems(1) have d1: "distinct (map post_id (posts st1))" by simp
      from 2 fresh disj
      have "int ` set (create_times rs) \<inter> set (map post_id (posts st1)) = {}" by auto
      from Cons.IH [OF d1 drs this] 2
      show ?thesis unfolding run times by auto
    qed
  next
    case GetAll
    with step show ?thesis by (intro other) simp_all
  next
    case (GetOne i)
    with step show ?thesis by (intro other) simp_all
  next
    case (Update i b)
    with step show ?thesis by (intro other) simp_all
  next
    case (Delete i)
    with step show ?thesis by (intro other) simp_all
  qed
qed

subsection \<open>The concrete requests, evaluated\<close>

lemma jpg_upload_accepted: "fileFilter jpg_upload"
  by code_simp

lemma txt_upload_refused: "\<not> fileFilter txt_upload"
  by code_simp

text \<open>The pattern matches anywhere in the text, and the usual type of a \<^verbatim>\<open>.mov\<close> file
  does not contain \<^verbatim>\<open>mov\<close>. The capital I with a dot (U+0130) becomes an \<^verbatim>\<open>i\<close> in lower
  case.\<close>

lemma toLowerCase_examples:
  "toLowerCase ''.JPG'' = ''.jpg'' \<and>
   test allowedTypes (toLowerCase (''.AV'' @ [CHR 0xC4, CHR 0xB0]))"
  by code_simp

lemma pattern_is_unanchored:
  "test allowedTypes ''.jpgx'' \<and> test allowedTypes ''text/x-png'' \<and>
   \<not> test allowedTypes ''video/quicktime''"
  by code_simp

text \<open>A refused file ends the request, and the state is what it was.\<close>

lemma refused_upload_leaves_state:
  assumes "file_part req = Some file" and "\<not> fileFilter file"
  shows "post_posts JSON_parse e req st =
           ((500, Unhandled ''Solo immagini e video sono permessi!''), st)"
  using assms by (simp add: post_posts_def upload_single_def)

lemma create_txt_refused:
  "post_posts JSON_parse env_a txt_request empty_server =
     ((500, Unhandled ''Solo immagini e video sono permessi!''), empty_server)"
  by (rule refused_upload_leaves_state [OF _ txt_upload_refused]) (simp add: txt_request_def)

lemma jpgx_upload_accepted: "fileFilter jpgx_upload"
  by code_simp

lemma jpgx_upload_extname: "extname (originalname jpgx_upload) = ''.jpgx''"
  by code_simp

lemma jpgx_not_listed:
  "drop 1 (toLowerCase (extname (originalname jpgx_upload))) \<notin> set allowedTypes \<and>
   mimetype jpgx_upload \<notin> set (map (\<lambda>t. ''image/'' @ t) allowedTypes) \<and>
   mimetype jpgx_upload \<notin> set (map (\<lambda>t. ''video/'' @ t) allowedTypes)"
  by code_simp

lemma upload_single_jpgx:
  "upload_single e (Some jpgx_upload) st =
     (Inr (Some \<lparr>filename = decimal (upload_now e) @ ''-'' @ decimal (rnd e) @ ''.jpgx'',
                 path = ''uploads/'' @ decimal (upload_now e) @ ''-'' @ decimal (rnd e)
                          @ ''.jpgx'',
                 stored_mimetype = ''text/x-png''\<rparr>),
      st\<lparr>files := insert (''uploads/'' @ decimal (upload_now e) @ ''-'' @ decimal (rnd e)
                             @ ''.jpgx'') (files st)\<rparr>)"
  by (simp add: upload_single_def jpgx_upload_accepted storage_filename_def jpgx_upload_extname
        Let_def fileSize_limit_def) (simp add: jpgx_upload_def)

lemma create_x:
  "post_posts JSON_parse env_a jpgx_request empty_server = ((201, OnePost post_x), server_x)"
  by (simp add: post_posts_def upload_single_jpgx field_def newPost_def writePosts_def
        readPosts_def startsWith_def decimal.simps digit_char_def Let_def trim_Nil
        jpgx_request_def env_a_def empty_server_def post_x_def server_x_def)

lemma jpg_upload_extname: "extname (originalname jpg_upload) = ''.JPG''"
  by code_simp

lemma upload_single_jpg:
  "upload_single e (Some jpg_upload) st =
     (Inr (Some \<lparr>filename = decimal (upload_now e) @ ''-'' @ decimal (rnd e) @ ''.JPG'',
                 path = ''uploads/'' @ decimal (upload_now e) @ ''-'' @ decimal (rnd e) @ ''.JPG'',
                 stored_mimetype = ''image/jpeg''\<rparr>),
      st\<lparr>files := insert (''uploads/'' @ decimal (upload_now e) @ ''-'' @ decimal (rnd e)
                             @ ''.JPG'') (files st)\<rparr>)"
  by (simp add: upload_single_def jpg_upload_accepted storage_filename_def jpg_upload_extname
        Let_def fileSize_limit_def) (simp add: jpg_upload_def)

lemmas eval_defs =
  post_posts_def upload_single_jpg field_def newPost_def writePosts_def readPosts_def
  startsWith_def decimal.simps digit_char_def Let_def

lemma create_a:
  "post_posts JSON_parse_sample env_a trip_request empty_server =
     ((201, OnePost post_a), server_a)"
  by (simp add: eval_defs trip_request_def env_a_def JSON_parse_sample_def empty_server_def
        post_a_def server_a_def)

lemma create_b:
  "post_posts JSON_parse_sample env_b trip_request server_a =
     ((201, OnePost post_b), server_b)"
  by (simp add: eval_defs trip_request_def env_b_def JSON_parse_sample_def
        post_b_def server_a_def server_b_def)

lemma create_c:
  "post_posts JSON_parse_sample env_c trip_request server_a =
     ((201, OnePost post_c), server_c)"
  by (simp add: eval_defs trip_request_def env_c_def JSON_parse_sample_def
        post_c_def server_a_def server_c_def)

lemma run_a_b:
  "run JSON_parse_sample [Create env_a trip_request, Create env_b trip_request] empty_server
     = server_b"
  by (simp add: create_a create_b)

lemma run_a_c:
  "run JSON_parse_sample [Create env_a trip_request, Create env_c trip_request] empty_server
     = server_c"
  by (simp add: create_a create_c)

lemma matches_a: "id_matches (post_id post_a) (parseInt ''1700000000002'')"
  by (simp add: parseInt_a id_matches_def post_a_def)

lemma matches_b: "\<not> id_matches (post_id post_b) (parseInt ''1700000000002'')"
  by (simp add: parseInt_a id_matches_def post_b_def)

lemma matches_linked: "id_matches (post_id linked_post) (parseInt ''1700000000002'')"
  by (simp add: parseInt_a id_matches_def linked_post_def)

lemma filePath_a: "filePath (url post_a) = ''uploads/1700000000000-123456789.JPG''"
  by (simp add: filePath_def post_a_def is_slash_def)

lemma get_a: "get_post ''1700000000002'' locked_server = ((200, OnePost post_a), locked_server)"
  by (simp add: get_post_def readPosts_def locked_server_def matches_a)

lemma findIndex_linked:
  "findIndex (\<lambda>p. id_matches (post_id p) (parseInt ''1700000000002'')) (posts linked_server)
     = Some 1"
  by (simp add: linked_server_def matches_b matches_linked)

lemma trim_blank: "trim ''  '' = []"
  by code_simp


lemma put_clearing:
  "put_post ''1700000000002'' clearing_body linked_server =
     ((200, OnePost (linked_post\<lparr>externalLink := JNull\<rparr>)), cleared_server)"
  by (simp add: put_post_def readPosts_def writePosts_def Let_def linked_server_def
        matches_b matches_linked assign_fields_def clearing_body_def cleared_server_def
        trim_blank)




section \<open>Properties\<close>

subsection \<open>The file filter\<close>

text \<open>
  C1. A file is to be accepted only if its extension and its declared type are among the
  allowed types, as the message of the filter says (only images and videos are allowed). The
  pattern of the filter has no anchors, so it passes every file in whose extension and type
  one of the nine words occurs somewhere. The file \<^verbatim>\<open>photo.jpgx\<close> declared as \<^verbatim>\<open>text/x-png\<close>
  has neither an allowed extension nor the type of an allowed image or video: it is accepted,
  stored in the directory, and a post is created for it.
\<close>

theorem unanchored_pattern_accepts_jpgx:
  "post_posts JSON_parse env_a jpgx_request empty_server = ((201, OnePost post_x), server_x) \<and>
   drop 1 (toLowerCase (extname (originalname jpgx_upload))) \<notin> set allowedTypes \<and>
   mimetype jpgx_upload \<notin> set (map (\<lambda>t. ''image/'' @ t) allowedTypes) \<and>
   mimetype jpgx_upload \<notin> set (map (\<lambda>t. ''video/'' @ t) allowedTypes)"
  using create_x [of JSON_parse] jpgx_not_listed by blast

theorem unanchored_pattern_accepts_jpgx_witness:
  "file_part jpgx_request = Some jpgx_upload \<and>
   post_posts JSON_parse_sample env_a jpgx_request empty_server =
     ((201, OnePost post_x), server_x) \<and>
   files server_x = {''uploads/1700000000000-123456789.jpgx''}"
  using unanchored_pattern_accepts_jpgx [of JSON_parse_sample]
  by (simp add: jpgx_request_def server_x_def)

subsection \<open>Cleaning up after a rejected create\<close>

text \<open>
  C2. A create request whose file was stored but whose metadata is invalid should be answered
  400, add no record and have its stored file deleted. The handler does this when the title
  or the description is missing or empty (\<open>missing_title_or_description_rejected\<close>). It does
  not when the tags are not JSON: \<^verbatim>\<open>JSON.parse\<close> throws, the answer is 500, and the file that
  was stored for the request stays in the directory with no record that refers to it.
\<close>

theorem malformed_tags_leave_file:
  assumes "JSON_parse ''{bad'' = None"
  shows "post_posts JSON_parse env_a bad_tags_request empty_server =
           ((500, create_error), orphaned_upload_server)"
  using assms
  by (simp add: eval_defs bad_tags_request_def env_a_def empty_server_def
        orphaned_upload_server_def)

theorem malformed_tags_leave_file_witness:
  "JSON_parse_sample ''{bad'' = None \<and>
   post_posts JSON_parse_sample env_a bad_tags_request empty_server =
     ((500, create_error), orphaned_upload_server)"
proof -
  have "JSON_parse_sample ''{bad'' = None" by (simp add: JSON_parse_sample_def)
  with malformed_tags_leave_file [of JSON_parse_sample] show ?thesis by simp
qed

subsection \<open>Deleting a post\<close>

text \<open>
  C3, as the handler has it. A delete request for an existing id whose backing file is missing
  or can be removed is answered 200: the file, if there is one, is removed, the first record
  of that id is removed from the collection, and the document is written. A missing file is
  not an error. When the file exists and removing it fails, the request is answered 500 and
  the state, the record included, is what it was.
\<close>

theorem delete_outcome:
  assumes "findIndex (\<lambda>p. id_matches (post_id p) (parseInt i)) (posts st) = Some k"
  shows "(filePath (url (posts st ! k)) \<notin> files st \<or>
          filePath (url (posts st ! k)) \<notin> unremovable st \<longrightarrow>
            delete_post i st =
              ((200, Message ''Post eliminato con successo''),
               st\<lparr>files := files st - {filePath (url (posts st ! k))},
                  posts := splice1 k (posts st)\<rparr>)) \<and>
         (filePath (url (posts st ! k)) \<in> files st \<and>
          filePath (url (posts st ! k)) \<in> unremovable st \<longrightarrow>
            delete_post i st = ((500, delete_error), st))"
  using assms
  by (auto simp: delete_post_def readPosts_def writePosts_def existsSync_def unlinkSync_def
        Let_def)

theorem delete_outcome_witness:
  "delete_post ''1700000000002'' fileless_server =
     ((200, Message ''Post eliminato con successo''), empty_server) \<and>
   delete_post ''1700000000002'' server_a =
     ((200, Message ''Post eliminato con successo''), empty_server) \<and>
   delete_post ''1700000000002'' locked_server = ((500, delete_error), locked_server)"
proof -
  have 1: "findIndex (\<lambda>p. id_matches (post_id p) (parseInt ''1700000000002''))
             (posts fileless_server) = Some 0"
    by (simp add: fileless_server_def matches_a)
  have 2: "findIndex (\<lambda>p. id_matches (post_id p) (parseInt ''1700000000002''))
             (posts server_a) = Some 0"
    by (simp add: server_a_def matches_a)
  have 3: "findIndex (\<lambda>p. id_matches (post_id p) (parseInt ''1700000000002''))
             (posts locked_server) = Some 0"
    by (simp add: locked_server_def matches_a)
  from delete_outcome [OF 1] delete_outcome [OF 2] delete_outcome [OF 3] filePath_a
  show ?thesis
    by (simp add: fileless_server_def server_a_def locked_server_def empty_server_def
          splice1_def)
qed

text \<open>
  C3 as stated fails: the post of \<open>locked_server\<close> exists, its file cannot be removed, and
  the delete request is answered 500 with the record still in the collection.
\<close>

theorem delete_aborted_counterexample:
  "get_post ''1700000000002'' locked_server = ((200, OnePost post_a), locked_server) \<and>
   delete_post ''1700000000002'' locked_server = ((500, delete_error), locked_server) \<and>
   posts locked_server = [post_a]"
proof -
  have "delete_post ''1700000000002'' locked_server = ((500, delete_error), locked_server)"
    by (simp add: delete_post_def readPosts_def locked_server_def matches_a filePath_a
          existsSync_def unlinkSync_def Let_def)
  with get_a show ?thesis by (simp add: locked_server_def)
qed

subsection \<open>Uniqueness of ids\<close>

text \<open>
  C4, as the handlers have it. The id of a post is the clock value its create request reads.
  After any sequence of requests that starts from an empty collection and whose create
  requests read pairwise distinct clock values (as a strictly increasing clock gives), the
  ids of the collection are pairwise distinct, and each is one of those clock values.
\<close>

theorem ids_unique_for_distinct_clock:
  assumes "posts st = []" and "distinct (create_times rs)"
  shows "distinct (map post_id (posts (run JSON_parse rs st))) \<and>
         set (map post_id (posts (run JSON_parse rs st))) \<subseteq> int ` set (create_times rs)"
  using run_ids [of st rs JSON_parse] assms by simp

theorem ids_unique_for_distinct_clock_witness:
  "posts empty_server = [] \<and>
   distinct (create_times [Create env_a trip_request, Create env_b trip_request]) \<and>
   map post_id (posts (run JSON_parse_sample
      [Create env_a trip_request, Create env_b trip_request] empty_server))
     = [1700000000501, 1700000000002] \<and>
   distinct [1700000000501, 1700000000002 :: int]"
proof -
  have e: "posts empty_server = []" by (simp add: empty_server_def)
  have d: "distinct (create_times [Create env_a trip_request, Create env_b trip_request])"
    by (simp add: env_a_def env_b_def)
  have ids: "map post_id (posts server_b) = [1700000000501, 1700000000002]"
    by (simp add: server_b_def post_a_def post_b_def)
  from ids_unique_for_distinct_clock [OF e d, of JSON_parse_sample] e d ids
  show ?thesis unfolding run_a_b by simp
qed

text \<open>
  C4 as stated fails: two create requests served in the same millisecond give two posts of
  the same id.
\<close>

theorem same_millisecond_counterexample:
  "\<not> distinct (map post_id (posts (run JSON_parse_sample
       [Create env_a trip_request, Create env_c trip_request] empty_server)))"
  unfolding run_a_c by (simp add: server_c_def post_a_def post_c_def)

subsection \<open>Partial update\<close>




subsection \<open>Order of the collection\<close>

text \<open>
  C6. A successful create prepends its record: when creating A and then B both succeed, the
  list request that follows returns B, then A, then the posts that were there before; from
  an empty collection it returns B, A.
\<close>

theorem create_prepends:
  assumes "post_posts JSON_parse eA reqA st = ((201, ra), stA)"
    and "post_posts JSON_parse eB reqB stA = ((201, rb), stB)"
  shows "\<exists>a b. ra = OnePost a \<and> rb = OnePost b \<and> posts stA = a # posts st \<and>
           get_posts stB = ((200, PostList (b # a # posts st)), stB)"
  using post_posts_outcome [OF assms(1)] post_posts_outcome [OF assms(2)]
  by (auto simp: get_posts_def readPosts_def)

theorem create_prepends_witness:
  "post_posts JSON_parse_sample env_a trip_request empty_server =
     ((201, OnePost post_a), server_a) \<and>
   post_posts JSON_parse_sample env_b trip_request server_a =
     ((201, OnePost post_b), server_b) \<and>
   get_posts server_b = ((200, PostList [post_b, post_a]), server_b)"
  using create_prepends [OF create_a create_b] create_a create_b
  by (simp add: empty_server_def)

subsection \<open>Create, then fetch\<close>

text \<open>
  C7. After a successful create, the request for the single post under the id of the
  creation response (in decimal notation) is answered 200 with the post of the creation
  response: all its fields are equal.
\<close>

theorem create_then_get:
  assumes "post_posts JSON_parse e req st = ((201, OnePost p), st')"
  shows "get_post (decimal (nat (post_id p))) st' = ((200, OnePost p), st')"
proof -
  from post_posts_outcome [OF assms]
  have id: "post_id p = int (now e)" and ps: "posts st' = p # posts st" by auto
  have "parseInt (decimal (nat (post_id p))) = Some (post_id p)"
    by (simp add: id parseInt_decimal)
  then show ?thesis
    by (simp add: get_post_def readPosts_def ps id_matches_def)
qed

theorem create_then_get_witness:
  "post_posts JSON_parse_sample env_a trip_request empty_server =
     ((201, OnePost post_a), server_a) \<and>
   get_post ''1700000000002'' server_a = ((200, OnePost post_a), server_a)"
proof -
  have "decimal (nat (post_id post_a)) = ''1700000000002''"
    by (simp add: post_a_def decimal.simps digit_char_def)
  with create_then_get [OF create_a] create_a show ?thesis by simp
qed

subsection \<open>What an update leaves alone\<close>

text \<open>
  C8. An update request, whatever its outcome, leaves the \<^verbatim>\<open>id\<close>, \<^verbatim>\<open>type\<close> and \<^verbatim>\<open>url\<close> of
  every post of the collection as they were, leaves every post but the targeted one (the
  first of the given id) unchanged, and touches no file.
\<close>

theorem put_frame:
  assumes "put_post i b st = (resp, st')"
  shows "map post_id (posts st') = map post_id (posts st) \<and>
         map post_type (posts st') = map post_type (posts st) \<and>
         map url (posts st') = map url (posts st) \<and>
         (\<forall>j < length (posts st).
            findIndex (\<lambda>p. id_matches (post_id p) (parseInt i)) (posts st) \<noteq> Some j \<longrightarrow>
            posts st' ! j = posts st ! j) \<and>
         files st' = files st"
  using put_post_cases [OF assms]
  by (auto simp: map_update list_update_same_conv nth_list_update)

theorem put_frame_witness:
  "put_post ''1700000000002'' clearing_body linked_server =
     ((200, OnePost (linked_post\<lparr>externalLink := JNull\<rparr>)), cleared_server) \<and>
   posts cleared_server \<noteq> posts linked_server \<and>
   map post_id (posts cleared_server) = [1700000000501, 1700000000002] \<and>
   map post_type (posts cleared_server) = [Image, Image] \<and>
   map url (posts cleared_server) =
     [''/uploads/1700000000500-42.JPG'', ''/uploads/1700000000000-123456789.JPG''] \<and>
   posts cleared_server ! 0 = post_b \<and>
   files cleared_server = files linked_server"
proof -
  have "posts cleared_server \<noteq> posts linked_server"
    by (simp add: cleared_server_def linked_server_def linked_post_def)
  with put_frame [OF put_clearing] put_clearing findIndex_linked show ?thesis
    by (simp add: linked_server_def linked_post_def post_b_def)
qed

subsection \<open>Ids that are not numbers\<close>

text \<open>
  C9, as the handlers have it. The \<^verbatim>\<open>:id\<close> parameter is read by \<^verbatim>\<open>parseInt\<close>.
  \<^item> A value in which \<^verbatim>\<open>parseInt\<close> finds no number, as every value that begins with a letter,
    matches no post of any collection: the single-post, update and delete requests are
    answered 404 and leave the state as it is.
  \<^item> A value made of the decimal notation of a number and of a text that does not begin with
    a decimal digit (after the single digit 0 the text must not begin with \<^verbatim>\<open>x\<close> or \<^verbatim>\<open>X\<close>
    either, which would announce a hexadecimal number) is read as that number: the
    single-post request is answered with the first post whose id is the number, or with 404
    when there is none, and the update and delete requests are those of the number alone.
\<close>

theorem unparsable_id_not_found:
  "(parseInt i = None \<longrightarrow>
      get_post i st = ((404, Error ''Post non trovato''), st) \<and>
      put_post i b st = ((404, Error ''Post non trovato''), st) \<and>
      delete_post i st = ((404, Error ''Post non trovato''), st)) \<and>
   (\<forall>c r. i = c # r \<and> c \<in> set (upper_chars @ lower_chars) \<longrightarrow> parseInt i = None) \<and>
   (\<forall>n rest. i = decimal n @ rest \<and> takeWhile (is_digit 10) rest = [] \<and>
       (n = 0 \<longrightarrow> take 1 rest \<noteq> ''x'' \<and> take 1 rest \<noteq> ''X'') \<longrightarrow>
      parseInt i = Some (int n) \<and>
      get_post i st =
        (case List.find (\<lambda>p. post_id p = int n) (posts st) of
           None \<Rightarrow> ((404, Error ''Post non trovato''), st)
         | Some p \<Rightarrow> ((200, OnePost p), st)) \<and>
      put_post i b st = put_post (decimal n) b st \<and>
      delete_post i st = delete_post (decimal n) st)"
proof (intro conjI impI allI)
  assume nan: "parseInt i = None"
  have none: "findIndex (\<lambda>p. id_matches (post_id p) (parseInt i)) ps = None" for ps
    by (simp add: findIndex_None id_matches_def nan)
  have nofind: "List.find (\<lambda>p. id_matches (post_id p) (parseInt i)) ps = None" for ps
    by (simp add: find_None_iff id_matches_def nan)
  show "get_post i st = ((404, Error ''Post non trovato''), st)"
    by (simp add: get_post_def nofind)
  show "put_post i b st = ((404, Error ''Post non trovato''), st)"
    by (simp add: put_post_def none)
  show "delete_post i st = ((404, Error ''Post non trovato''), st)"
    by (simp add: delete_post_def none)
next
  fix c r
  assume "i = c # r \<and> c \<in> set (upper_chars @ lower_chars)"
  then show "parseInt i = None" by (simp add: parseInt_letter)
next
  fix n rest
  assume a: "i = decimal n @ rest \<and> takeWhile (is_digit 10) rest = [] \<and>
       (n = 0 \<longrightarrow> take 1 rest \<noteq> ''x'' \<and> take 1 rest \<noteq> ''X'')"
  then have i: "parseInt i = Some (int n)"
    using parseInt_decimal_then [of rest n] by blast
  have eq: "(\<lambda>p. id_matches (post_id p) (Some (int n))) = (\<lambda>p. post_id p = int n)"
    by (auto simp: id_matches_def)
  show "parseInt i = Some (int n)" by (rule i)
  show "get_post i st =
        (case List.find (\<lambda>p. post_id p = int n) (posts st) of
           None \<Rightarrow> ((404, Error ''Post non trovato''), st)
         | Some p \<Rightarrow> ((200, OnePost p), st))"
    by (simp add: get_post_def readPosts_def i eq)
  show "put_post i b st = put_post (decimal n) b st"
    by (simp add: put_post_def i parseInt_decimal)
  show "delete_post i st = delete_post (decimal n) st"
    by (simp add: delete_post_def i parseInt_decimal)
qed

theorem unparsable_id_not_found_witness:
  "parseInt ''abc'' = None \<and>
   get_post ''abc'' server_a = ((404, Error ''Post non trovato''), server_a) \<and>
   put_post ''abc'' Map.empty server_a = ((404, Error ''Post non trovato''), server_a) \<and>
   delete_post ''abc'' server_a = ((404, Error ''Post non trovato''), server_a) \<and>
   ''1700000000002abc'' = decimal 1700000000002 @ ''abc'' \<and>
   takeWhile (is_digit 10) ''abc'' = [] \<and>
   parseInt ''1700000000002abc'' = Some 1700000000002 \<and>
   get_post ''1700000000002abc'' server_a = ((200, OnePost post_a), server_a) \<and>
   delete_post ''1700000000002abc'' server_a = delete_post ''1700000000002'' server_a"
proof -
  have split: "''1700000000002abc'' = decimal 1700000000002 @ ''abc''"
    by (simp add: decimal_a)
  have rest: "takeWhile (is_digit 10) ''abc'' = []"
    by (simp add: is_digit_def digit_val_def digit_table_def upt_rec)
  have found: "List.find (\<lambda>p. post_id p = int 1700000000002) (posts server_a) = Some post_a"
    by (simp add: server_a_def post_a_def)
  note abc = unparsable_id_not_found [of "''abc''" server_a Map.empty]
  note pre = unparsable_id_not_found [of "''1700000000002abc''" server_a Map.empty]
  from abc parseInt_abc
  have 1: "get_post ''abc'' server_a = ((404, Error ''Post non trovato''), server_a)"
    "put_post ''abc'' Map.empty server_a = ((404, Error ''Post non trovato''), server_a)"
    "delete_post ''abc'' server_a = ((404, Error ''Post non trovato''), server_a)"
    by blast+
  have hyp: "''1700000000002abc'' = decimal 1700000000002 @ ''abc'' \<and>
      takeWhile (is_digit 10) ''abc'' = [] \<and>
      ((1700000000002 :: nat) = 0 \<longrightarrow> take 1 ''abc'' \<noteq> ''x'' \<and> take 1 ''abc'' \<noteq> ''X'')"
    using split rest by simp
  note read = pre [THEN conjunct2, THEN conjunct2, rule_format, OF hyp]
  from read have 2: "parseInt ''1700000000002abc'' = Some (int 1700000000002)"
    by (rule conjunct1)
  from read have "get_post ''1700000000002abc'' server_a =
        (case List.find (\<lambda>p. post_id p = int 1700000000002) (posts server_a) of
           None \<Rightarrow> ((404, Error ''Post non trovato''), server_a)
         | Some p \<Rightarrow> ((200, OnePost p), server_a))"
    by (elim conjE)
  then have 3: "get_post ''1700000000002abc'' server_a = ((200, OnePost post_a), server_a)"
    by (simp only: found option.case)
  from read
  have "delete_post ''1700000000002abc'' server_a = delete_post (decimal 1700000000002) server_a"
    by (elim conjE)
  then have 4: "delete_post ''1700000000002abc'' server_a = delete_post ''1700000000002'' server_a"
    by (simp only: decimal_a)
  from 2 have 5: "parseInt ''1700000000002abc'' = Some 1700000000002" by simp
  from 1 3 4 5 parseInt_abc split rest show ?thesis
    by (intro conjI)
qed

text \<open>
  C9 as stated fails: \<^verbatim>\<open>1700000000002abc\<close> is not a numeric value, and the request for the
  single post under it is answered with the post of id 1700000000002.
\<close>

theorem non_numeric_id_counterexample:
  "\<not> numeric_id ''1700000000002abc'' \<and>
   get_post ''1700000000002abc'' server_a = ((200, OnePost post_a), server_a)"
proof -
  have "\<not> numeric_id ''1700000000002abc''" by code_simp
  moreover have "get_post ''1700000000002abc'' server_a = ((200, OnePost post_a), server_a)"
    by (simp add: get_post_def readPosts_def parseInt_prefix id_matches_def)
       (simp add: server_a_def post_a_def)
  ultimately show ?thesis by simp
qed

subsection \<open>Error answers and the document\<close>

text \<open>
  C10. When the single-post, update or delete request is answered 404, or the create request
  is answered 400, the document is not written: the collection after the request is the
  collection before it.
\<close>

theorem error_responses_leave_document:
  "(fst (fst (get_post i st)) = 404 \<longrightarrow> posts (snd (get_post i st)) = posts st) \<and>
   (fst (fst (put_post i b st)) = 404 \<longrightarrow> posts (snd (put_post i b st)) = posts st) \<and>
   (fst (fst (delete_post i st)) = 404 \<longrightarrow> posts (snd (delete_post i st)) = posts st) \<and>
   (fst (fst (post_posts JSON_parse e req st)) = 400 \<longrightarrow>
      posts (snd (post_posts JSON_parse e req st)) = posts st)"
proof (intro conjI impI)
  show "posts (snd (get_post i st)) = posts st"
    by (simp add: get_post_def Let_def split: option.splits)
  show "posts (snd (put_post i b st)) = posts st" if "fst (fst (put_post i b st)) = 404"
    using that
    by (auto simp: put_post_def Let_def writePosts_def split: option.splits sum.splits)
  show "posts (snd (delete_post i st)) = posts st" if "fst (fst (delete_post i st)) = 404"
    using that
    by (auto simp: delete_post_def Let_def writePosts_def split: option.splits sum.splits)
  show "posts (snd (post_posts JSON_parse e req st)) = posts st"
    if "fst (fst (post_posts JSON_parse e req st)) = 400"
    using that post_posts_outcome [of JSON_parse e req st]
    by (cases "post_posts JSON_parse e req st") auto
qed

theorem error_responses_leave_document_witness:
  "fst (fst (get_post ''abc'' server_a)) = 404 \<and>
   fst (fst (put_post ''abc'' Map.empty server_a)) = 404 \<and>
   fst (fst (delete_post ''abc'' server_a)) = 404 \<and>
   fst (fst (post_posts JSON_parse_sample env_b untitled_request server_a)) = 400 \<and>
   posts (snd (get_post ''abc'' server_a)) = posts server_a \<and>
   posts (snd (put_post ''abc'' Map.empty server_a)) = posts server_a \<and>
   posts (snd (delete_post ''abc'' server_a)) = posts server_a \<and>
   posts (snd (post_posts JSON_parse_sample env_b untitled_request server_a)) = posts server_a"
proof -
  have g: "fst (fst (get_post ''abc'' server_a)) = 404"
    by (simp add: get_post_def readPosts_def parseInt_abc id_matches_def server_a_def)
  have u: "fst (fst (put_post ''abc'' Map.empty server_a)) = 404"
    by (simp add: put_post_def readPosts_def parseInt_abc id_matches_def server_a_def)
  have d: "fst (fst (delete_post ''abc'' server_a)) = 404"
    by (simp add: delete_post_def readPosts_def parseInt_abc id_matches_def server_a_def)
  have c: "fst (fst (post_posts JSON_parse_sample env_b untitled_request server_a)) = 400"
    by (simp add: post_posts_def upload_single_jpg field_def untitled_request_def
          unlinkSync_def server_a_def)
  from g u d c
    error_responses_leave_document
      [of "''abc''" server_a Map.empty JSON_parse_sample env_b untitled_request]
  show ?thesis by simp
qed

end
